theory Spec2Isabelle
  imports Main "HOL-Library.AList" "HOL-Library.Sublist"
begin

section \<open>The Python fragment conf.py is written in\<close>

text \<open>
  conf.py is a Python module: two \<^verbatim>\<open>import\<close> statements followed by sixteen
  assignments of literals to module-level names. It is embedded as the list of its
  statements, executed over an explicit module namespace. A namespace is an association
  list in binding order, as a Python \<^verbatim>\<open>dict\<close> is: rebinding a name keeps its place,
  a new name goes to the end (\<open>AList.update\<close>).

  Expressions are the literals the file uses (strings, \<^verbatim>\<open>True\<close>, \<^verbatim>\<open>False\<close>,
  \<^verbatim>\<open>None\<close>, list, tuple and dict displays) and the reading of a name, which is how
  a value bound earlier (an imported module, say) could flow into a later one.
\<close>

datatype val =
    VStr string
  | VBool bool
  | VNone
  | VList "val list"
  | VTuple "val list"
  | VDict "(val \<times> val) list"
  | VModule string "(string \<times> val) list"

datatype expr =
    Str string
  | BoolE bool
  | NoneE
  | ListE "expr list"
  | TupleE "expr list"
  | DictE "(expr \<times> expr) list"
  | Name string

datatype stmt =
    Import string
  | Assign string expr

datatype error =
    ModuleNotFoundError string
  | NameError string
  | TypeError

type_synonym namespace = "(string \<times> val) list"

text \<open>
  What an evaluation can see of the world outside the file: the modules the interpreter
  can import, each with its attributes (\<^verbatim>\<open>sys.argv\<close>, \<^verbatim>\<open>os.environ\<close>, ...), and the
  built-in names.
\<close>

record environment =
  sys_modules :: "(string \<times> (string \<times> val) list) list"
  builtins :: "(string \<times> val) list"

definition importable :: "environment \<Rightarrow> string \<Rightarrow> bool" where
  "importable env m = (map_of (sys_modules env) m \<noteq> None)"

text \<open>Lists and dicts are unhashable, a tuple is hashable when its elements are.\<close>

fun hashable :: "val \<Rightarrow> bool"
and hashable_list :: "val list \<Rightarrow> bool" where
  "hashable (VList vs) = False"
| "hashable (VDict d) = False"
| "hashable (VTuple vs) = hashable_list vs"
| "hashable (VStr s) = True"
| "hashable (VBool b) = True"
| "hashable VNone = True"
| "hashable (VModule m attrs) = True"
| "hashable_list [] = True"
| "hashable_list (v # vs) = (hashable v \<and> hashable_list vs)"

text \<open>
  A dict display is built left to right from its evaluated items; a later item with an
  equal key replaces the value and keeps the place of the first. An unhashable key
  raises \<^verbatim>\<open>TypeError\<close>.
\<close>

fun build_dict :: "(val \<times> val) list \<Rightarrow> (val \<times> val) list \<Rightarrow> error + (val \<times> val) list" where
  "build_dict [] d = Inr d"
| "build_dict ((k, v) # kvs) d =
     (if hashable k then build_dict kvs (AList.update k v d) else Inl TypeError)"

function eval :: "environment \<Rightarrow> namespace \<Rightarrow> expr \<Rightarrow> error + val"
and eval_list :: "environment \<Rightarrow> namespace \<Rightarrow> expr list \<Rightarrow> error + val list"
and eval_items :: "environment \<Rightarrow> namespace \<Rightarrow> (expr \<times> expr) list \<Rightarrow> error + (val \<times> val) list" where
  "eval env ns (Str s) = Inr (VStr s)"
| "eval env ns (BoolE b) = Inr (VBool b)"
| "eval env ns NoneE = Inr VNone"
| "eval env ns (ListE es) =
     (case eval_list env ns es of Inl err \<Rightarrow> Inl err | Inr vs \<Rightarrow> Inr (VList vs))"
| "eval env ns (TupleE es) =
     (case eval_list env ns es of Inl err \<Rightarrow> Inl err | Inr vs \<Rightarrow> Inr (VTuple vs))"
| "eval env ns (DictE kvs) =
     (case eval_items env ns kvs of
        Inl err \<Rightarrow> Inl err
      | Inr items \<Rightarrow>
          (case build_dict items [] of Inl err \<Rightarrow> Inl err | Inr d \<Rightarrow> Inr (VDict d)))"
| "eval env ns (Name x) =
     (case map_of ns x of
        Some v \<Rightarrow> Inr v
      | None \<Rightarrow>
          (case map_of (builtins env) x of
             Some v \<Rightarrow> Inr v
           | None \<Rightarrow> Inl (NameError x)))"
| "eval_list env ns [] = Inr []"
| "eval_list env ns (e # es) =
     (case eval env ns e of
        Inl err \<Rightarrow> Inl err
      | Inr v \<Rightarrow>
          (case eval_list env ns es of Inl err \<Rightarrow> Inl err | Inr vs \<Rightarrow> Inr (v # vs)))"
| "eval_items env ns [] = Inr []"
| "eval_items env ns ((k, v) # kvs) =
     (case eval env ns k of
        Inl err \<Rightarrow> Inl err
      | Inr kv \<Rightarrow>
          (case eval env ns v of
             Inl err \<Rightarrow> Inl err
           | Inr vv \<Rightarrow>
               (case eval_items env ns kvs of
                  Inl err \<Rightarrow> Inl err
                | Inr items \<Rightarrow> Inr ((kv, vv) # items))))"
  by pat_completeness auto
termination
  by (relation "measure (\<lambda>x. case x of
        Inl (env, ns, e) \<Rightarrow> size e
      | Inr (Inl (env, ns, es)) \<Rightarrow> size_list size es
      | Inr (Inr (env, ns, kvs)) \<Rightarrow> size_list (size_prod size size) kvs)") auto

text \<open>
  \<^verbatim>\<open>import m\<close> binds the name \<open>m\<close> to the module object the environment holds, and
  raises when there is none. \<^verbatim>\<open>x = e\<close> evaluates \<open>e\<close> and binds \<open>x\<close>.
\<close>

fun exec :: "environment \<Rightarrow> stmt \<Rightarrow> namespace \<Rightarrow> error + namespace" where
  "exec env (Import m) ns =
     (case map_of (sys_modules env) m of
        None \<Rightarrow> Inl (ModuleNotFoundError m)
      | Some attrs \<Rightarrow> Inr (AList.update m (VModule m attrs) ns))"
| "exec env (Assign x e) ns =
     (case eval env ns e of
        Inl err \<Rightarrow> Inl err
      | Inr v \<Rightarrow> Inr (AList.update x v ns))"

text \<open>Statements run in order; the first exception ends the run.\<close>

fun exec_stmts :: "environment \<Rightarrow> stmt list \<Rightarrow> namespace \<Rightarrow> error + namespace" where
  "exec_stmts env [] ns = Inr ns"
| "exec_stmts env (s # ss) ns =
     (case exec env s ns of Inl err \<Rightarrow> Inl err | Inr ns' \<Rightarrow> exec_stmts env ss ns')"

section \<open>conf.py\<close>

definition conf :: "stmt list" where
  "conf =
    [Import ''sys'',
     Import ''os'',
     Assign ''project'' (Str ''C++ Contracts Documentation''),
     Assign ''copyright'' (Str ''2025, EFCS LLC''),
     Assign ''author'' (Str ''Eric Fiselier''),
     Assign ''release'' (Str ''1.0''),
     Assign ''extensions''
       (ListE [Str ''sphinx.ext.intersphinx'', Str ''sphinx.ext.todo'']),
     Assign ''templates_path'' (ListE [Str ''_templates'']),
     Assign ''exclude_patterns''
       (ListE [Str ''_build'', Str ''Thumbs.db'', Str ''.DS_Store'']),
     Assign ''pygments_style'' (Str ''friendly''),
     Assign ''html_theme'' (Str ''haiku''),
     Assign ''html_static_path'' (ListE [Str ''_static'']),
     Assign ''html_theme_options'' (DictE [(Str ''nosidebar'', BoolE False)]),
     Assign ''html_theme_path'' (ListE [Str ''_themes'']),
     Assign ''html_show_sourcelink'' (BoolE True),
     Assign ''html_show_sphinx'' (BoolE True),
     Assign ''intersphinx_mapping''
       (DictE
         [(Str ''python'', TupleE [Str ''https://docs.python.org/3/'', NoneE]),
          (Str ''llvm'', TupleE [Str ''https://llvm.org/docs/'', NoneE])]),
     Assign ''todo_include_todos'' (BoolE True)]"

text \<open>Loading the file runs its statements in a fresh module namespace.\<close>

definition load :: "environment \<Rightarrow> error + namespace" where
  "load env = exec_stmts env conf []"

text \<open>
  The configuration record is the namespace without the module objects the imports
  bound: an option value is a string, a boolean, a list or a mapping.
\<close>

fun is_module :: "val \<Rightarrow> bool" where
  "is_module (VModule m attrs) = True"
| "is_module (VStr s) = False"
| "is_module (VBool b) = False"
| "is_module VNone = False"
| "is_module (VList vs) = False"
| "is_module (VTuple vs) = False"
| "is_module (VDict d) = False"

definition config_record :: "namespace \<Rightarrow> namespace" where
  "config_record ns = filter (\<lambda>kv. \<not> is_module (snd kv)) ns"

definition lookup_option :: "environment \<Rightarrow> string \<Rightarrow> val option" where
  "lookup_option env n =
     (case load env of Inl err \<Rightarrow> None | Inr ns \<Rightarrow> map_of (config_record ns) n)"

text \<open>The option bindings conf.py makes, in the order of the file.\<close>

definition conf_bindings :: namespace where
  "conf_bindings =
    [(''project'', VStr ''C++ Contracts Documentation''),
     (''copyright'', VStr ''2025, EFCS LLC''),
     (''author'', VStr ''Eric Fiselier''),
     (''release'', VStr ''1.0''),
     (''extensions'', VList [VStr ''sphinx.ext.intersphinx'', VStr ''sphinx.ext.todo'']),
     (''templates_path'', VList [VStr ''_templates'']),
     (''exclude_patterns'', VList [VStr ''_build'', VStr ''Thumbs.db'', VStr ''.DS_Store'']),
     (''pygments_style'', VStr ''friendly''),
     (''html_theme'', VStr ''haiku''),
     (''html_static_path'', VList [VStr ''_static'']),
     (''html_theme_options'', VDict [(VStr ''nosidebar'', VBool False)]),
     (''html_theme_path'', VList [VStr ''_themes'']),
     (''html_show_sourcelink'', VBool True),
     (''html_show_sphinx'', VBool True),
     (''intersphinx_mapping'',
        VDict
          [(VStr ''python'', VTuple [VStr ''https://docs.python.org/3/'', VNone]),
           (VStr ''llvm'', VTuple [VStr ''https://llvm.org/docs/'', VNone])]),
     (''todo_include_todos'', VBool True)]"

text \<open>A concrete environment: a POSIX interpreter started as \<^verbatim>\<open>sphinx-build . _build\<close>.\<close>

definition posix_sys :: "(string \<times> val) list" where
  "posix_sys =
    [(''argv'', VList [VStr ''sphinx-build'', VStr ''.'', VStr ''_build'']),
     (''platform'', VStr ''linux'')]"

definition posix_os :: "(string \<times> val) list" where
  "posix_os = [(''sep'', VStr ''/''), (''environ'', VDict [(VStr ''HOME'', VStr ''/root'')])]"

definition posix_env :: environment where
  "posix_env =
    \<lparr>sys_modules = [(''sys'', posix_sys), (''os'', posix_os)],
     builtins = [(''copyright'', VStr ''Copyright (c) Python Software Foundation'')]\<rparr>"

text \<open>A second one: a CI job running \<^verbatim>\<open>python -m sphinx -b html\<close>.\<close>

definition ci_env :: environment where
  "ci_env =
    \<lparr>sys_modules =
       [(''os'', [(''environ'', VDict [(VStr ''CI'', VStr ''true'')])]),
        (''sys'', [(''argv'', VList [VStr ''python'', VStr ''-m'', VStr ''sphinx'', VStr ''-b'', VStr ''html''])])],
     builtins = []\<rparr>"

section \<open>The vocabulary of the properties\<close>

subsection \<open>Statements\<close>

text \<open>The name a statement binds.\<close>

fun target :: "stmt \<Rightarrow> string" where
  "target (Import m) = m"
| "target (Assign x e) = x"

text \<open>
  A literal expression reads nothing: a string, a boolean, \<^verbatim>\<open>None\<close>, or a list,
  tuple or dict display of literals.
\<close>

function is_literal :: "expr \<Rightarrow> bool"
and is_literal_list :: "expr list \<Rightarrow> bool"
and is_literal_items :: "(expr \<times> expr) list \<Rightarrow> bool" where
  "is_literal (Str s) = True"
| "is_literal (BoolE b) = True"
| "is_literal NoneE = True"
| "is_literal (ListE es) = is_literal_list es"
| "is_literal (TupleE es) = is_literal_list es"
| "is_literal (DictE kvs) = is_literal_items kvs"
| "is_literal (Name x) = False"
| "is_literal_list [] = True"
| "is_literal_list (e # es) = (is_literal e \<and> is_literal_list es)"
| "is_literal_items [] = True"
| "is_literal_items ((k, v) # kvs) = (is_literal k \<and> is_literal v \<and> is_literal_items kvs)"
  by pat_completeness auto
termination
  by (relation "measure (\<lambda>x. case x of
        Inl e \<Rightarrow> size e
      | Inr (Inl es) \<Rightarrow> size_list size es
      | Inr (Inr kvs) \<Rightarrow> size_list (size_prod size size) kvs)") auto

text \<open>
  Modelled from the spec: the option names the documentation tool recognises. The tool
  is not part of this repository; the names are those of the table of the
  specification's section on external interfaces.
\<close>

definition recognized_options :: "string list" where
  "recognized_options =
    [''project'', ''author'', ''copyright'', ''release'',
     ''extensions'',
     ''templates_path'', ''html_static_path'', ''html_theme_path'', ''exclude_patterns'',
     ''html_theme'', ''pygments_style'',
     ''html_theme_options'', ''html_show_sourcelink'', ''html_show_sphinx'',
     ''intersphinx_mapping'',
     ''todo_include_todos'']"

text \<open>The expression a statement evaluates, if any.\<close>

fun assigned :: "stmt \<Rightarrow> expr list" where
  "assigned (Import m) = []"
| "assigned (Assign x e) = [e]"

text \<open>A statement that assigns a literal to a recognised option name.\<close>

fun option_assignment :: "stmt \<Rightarrow> bool" where
  "option_assignment (Assign x e) = (x \<in> set recognized_options \<and> is_literal e)"
| "option_assignment (Import m) = False"

text \<open>Binding a list of names in order, each as an assignment does.\<close>

definition bind_all :: "namespace \<Rightarrow> namespace \<Rightarrow> namespace" where
  "bind_all kvs ns = fold (\<lambda>kv. AList.update (fst kv) (snd kv)) kvs ns"

subsection \<open>Option values\<close>

text \<open>
  An intersphinx target: a pair of a non-empty base URL and an inventory, which is a
  path or \<^verbatim>\<open>None\<close>.
\<close>

fun intersphinx_entry_ok :: "val \<Rightarrow> bool" where
  "intersphinx_entry_ok (VTuple [VStr url, VNone]) = (url \<noteq> [])"
| "intersphinx_entry_ok (VTuple [VStr url, VStr path]) = (url \<noteq> [])"
| "intersphinx_entry_ok v = False"

fun inventory :: "val \<Rightarrow> val option" where
  "inventory (VTuple [url, path]) = Some path"
| "inventory v = None"

text \<open>
  Paths, as \<^verbatim>\<open>posixpath\<close> reads them: a path is absolute when it starts with a
  slash, and joining a directory with a relative path appends it below the directory.
\<close>

definition isabs :: "string \<Rightarrow> bool" where
  "isabs p = (take 1 p = ''/'')"

definition join :: "string \<Rightarrow> string \<Rightarrow> string" where
  "join a b =
     (if isabs b then b
      else if a = [] \<or> last a = CHR ''/'' then a @ b
      else a @ ''/'' @ b)"

definition path_options :: "string list" where
  "path_options =
    [''templates_path'', ''html_static_path'', ''html_theme_path'', ''exclude_patterns'']"

text \<open>
  A path entry that is relative and that resolves, from the directory \<open>d\<close> of the
  configuration file, to a location below \<open>d\<close>.
\<close>

fun relative_under :: "string \<Rightarrow> val \<Rightarrow> bool" where
  "relative_under d (VStr p) = (\<not> isabs p \<and> prefix d (join d p))"
| "relative_under d v = False"

fun relative_paths :: "string \<Rightarrow> val option \<Rightarrow> bool" where
  "relative_paths d (Some (VList ps)) = list_all (relative_under d) ps"
| "relative_paths d v = False"

text \<open>The characters that make a pattern a glob: \<^verbatim>\<open>*\<close>, \<^verbatim>\<open>?\<close> and \<^verbatim>\<open>[\<close>.\<close>

definition has_magic :: "string \<Rightarrow> bool" where
  "has_magic s = list_ex (\<lambda>c. c \<in> set ''*?['') s"

fun literal_name :: "val \<Rightarrow> bool" where
  "literal_name (VStr s) = (\<not> has_magic s)"
| "literal_name v = False"

fun literal_names :: "val option \<Rightarrow> bool" where
  "literal_names (Some (VList ps)) = list_all literal_name ps"
| "literal_names v = False"

text \<open>Boolean-valued options, and the entries of the theme's option mapping.\<close>

fun is_bool :: "val \<Rightarrow> bool" where
  "is_bool (VBool b) = True"
| "is_bool v = False"

definition is_bool_option :: "environment \<Rightarrow> string \<Rightarrow> bool" where
  "is_bool_option env n =
     (case lookup_option env n of None \<Rightarrow> False | Some v \<Rightarrow> is_bool v)"

definition bool_options :: "environment \<Rightarrow> string list" where
  "bool_options env =
     (case load env of
        Inl err \<Rightarrow> []
      | Inr ns \<Rightarrow> map fst (filter (\<lambda>kv. is_bool (snd kv)) (config_record ns)))"

definition theme_option :: "environment \<Rightarrow> string \<Rightarrow> val option" where
  "theme_option env k =
     (case lookup_option env ''html_theme_options'' of
        Some (VDict opts) \<Rightarrow> map_of opts (VStr k)
      | _ \<Rightarrow> None)"

section \<open>Loading succeeds and yields the file's bindings\<close>

lemma load_conf:
  assumes "map_of (sys_modules env) ''sys'' = Some a" and "map_of (sys_modules env) ''os'' = Some b"
  shows "load env = Inr ((''sys'', VModule ''sys'' a) # (''os'', VModule ''os'' b) # conf_bindings)"
  using assms by (simp add: load_def conf_def conf_bindings_def)

lemma config_record_load:
  assumes "importable env ''sys''" and "importable env ''os''"
  shows "\<exists>ns. load env = Inr ns \<and> config_record ns = conf_bindings"
proof -
  from assms obtain a b where
    ab: "map_of (sys_modules env) ''sys'' = Some a" "map_of (sys_modules env) ''os'' = Some b"
    by (auto simp: importable_def)
  have "config_record ((''sys'', VModule ''sys'' a) # (''os'', VModule ''os'' b) # conf_bindings)
          = conf_bindings"
    by (simp add: config_record_def conf_bindings_def)
  with load_conf [OF ab] show ?thesis by simp
qed

lemma lookup_option_conf:
  assumes "importable env ''sys''" and "importable env ''os''"
  shows "lookup_option env n = map_of conf_bindings n"
  using config_record_load [OF assms] by (auto simp: lookup_option_def)

lemma importable_posix_env: "importable posix_env ''sys'' \<and> importable posix_env ''os''"
  by (simp add: importable_def posix_env_def)

lemma importable_ci_env: "importable ci_env ''sys'' \<and> importable ci_env ''os''"
  by (simp add: importable_def ci_env_def)

section \<open>The extensions\<close>

text \<open>
  C1. The option \<open>extensions\<close> is bound to a list of exactly two strings,
  \<^verbatim>\<open>'sphinx.ext.intersphinx'\<close> (cross-project reference linking) and
  \<^verbatim>\<open>'sphinx.ext.todo'\<close> (TODO rendering), in that order, in every environment that
  has the two imported modules.
\<close>

theorem extensions_value:
  assumes "importable env ''sys''" and "importable env ''os''"
  shows "lookup_option env ''extensions''
           = Some (VList [VStr ''sphinx.ext.intersphinx'', VStr ''sphinx.ext.todo''])"
  by (simp add: lookup_option_conf [OF assms] conf_bindings_def)

theorem extensions_value_witness:
  "importable posix_env ''sys'' \<and> importable posix_env ''os'' \<and>
   lookup_option posix_env ''extensions''
     = Some (VList [VStr ''sphinx.ext.intersphinx'', VStr ''sphinx.ext.todo''])"
  using extensions_value [of posix_env] importable_posix_env by simp

section \<open>The intersphinx targets\<close>

text \<open>
  C2. The option \<open>intersphinx_mapping\<close> is a mapping with the two keys
  \<^verbatim>\<open>'python'\<close> and \<^verbatim>\<open>'llvm'\<close>; every entry is a pair of a non-empty base URL and
  an inventory that is a path or \<^verbatim>\<open>None\<close>, and here the inventory of both is
  \<^verbatim>\<open>None\<close>.
\<close>

theorem intersphinx_mapping_entries:
  assumes "importable env ''sys''" and "importable env ''os''"
  shows "\<exists>d. lookup_option env ''intersphinx_mapping'' = Some (VDict d) \<and>
           map fst d = [VStr ''python'', VStr ''llvm''] \<and>
           map snd d = [VTuple [VStr ''https://docs.python.org/3/'', VNone],
                        VTuple [VStr ''https://llvm.org/docs/'', VNone]] \<and>
           list_all (\<lambda>kv. intersphinx_entry_ok (snd kv)) d \<and>
           list_all (\<lambda>kv. inventory (snd kv) = Some VNone) d"
  by (simp add: lookup_option_conf [OF assms] conf_bindings_def)

theorem intersphinx_mapping_entries_witness:
  "importable posix_env ''sys'' \<and> importable posix_env ''os'' \<and>
   (\<exists>d. lookup_option posix_env ''intersphinx_mapping'' = Some (VDict d) \<and>
         map fst d = [VStr ''python'', VStr ''llvm''] \<and>
         map snd d = [VTuple [VStr ''https://docs.python.org/3/'', VNone],
                      VTuple [VStr ''https://llvm.org/docs/'', VNone]] \<and>
         list_all (\<lambda>kv. intersphinx_entry_ok (snd kv)) d \<and>
         list_all (\<lambda>kv. inventory (snd kv) = Some VNone) d)"
proof -
  have sys: "importable posix_env ''sys''" and os: "importable posix_env ''os''"
    using importable_posix_env by simp_all
  from intersphinx_mapping_entries [OF sys os] sys os show ?thesis
    by (intro conjI)
qed

section \<open>Executing the file again\<close>

lemma exec_conf:
  assumes "map_of (sys_modules env) ''sys'' = Some a" and "map_of (sys_modules env) ''os'' = Some b"
  shows "exec_stmts env conf ns
           = Inr (bind_all ((''sys'', VModule ''sys'' a) # (''os'', VModule ''os'' b) # conf_bindings) ns)"
  using assms by (simp add: conf_def conf_bindings_def bind_all_def)

lemma bind_all_triv:
  "list_all (\<lambda>kv. map_of ns (fst kv) = Some (snd kv)) kvs \<Longrightarrow> bind_all kvs ns = ns"
  by (induction kvs) (auto simp: bind_all_def update_triv)

lemma map_of_bind_all_other:
  "k \<notin> set (map fst kvs) \<Longrightarrow> map_of (bind_all kvs ns) k = map_of ns k"
  by (induction kvs arbitrary: ns) (auto simp: bind_all_def update_conv')

lemma map_of_bind_all:
  "distinct (map fst kvs) \<Longrightarrow> (k, v) \<in> set kvs \<Longrightarrow> map_of (bind_all kvs ns) k = Some v"
proof (induction kvs arbitrary: ns)
  case Nil
  then show ?case by simp
next
  case (Cons kv kvs)
  have step: "bind_all (kv # kvs) ns = bind_all kvs (AList.update (fst kv) (snd kv) ns)"
    by (simp add: bind_all_def)
  show ?case
  proof (cases "(k, v) \<in> set kvs")
    case True
    with Cons show ?thesis by (simp add: step)
  next
    case False
    with Cons.prems have kv: "kv = (k, v)" by simp
    with Cons.prems have "k \<notin> set (map fst kvs)" by simp
    from map_of_bind_all_other [OF this] show ?thesis
      unfolding kv by (simp add: bind_all_def update_conv')
  qed
qed

lemma bind_all_idem:
  assumes "distinct (map fst kvs)"
  shows "bind_all kvs (bind_all kvs ns) = bind_all kvs ns"
proof (rule bind_all_triv)
  show "list_all (\<lambda>kv. map_of (bind_all kvs ns) (fst kv) = Some (snd kv)) kvs"
    unfolding list_all_iff using map_of_bind_all [OF assms] by auto
qed

text \<open>
  C3. Loading is idempotent: executing the file in any namespace \<open>ns\<close> succeeds, and
  executing it a second time in the namespace the first run left yields that namespace
  again. A run reads its environment and returns a namespace; it has no other state.
  Loading is the case of the fresh namespace.
\<close>

theorem reload_idempotent:
  assumes "importable env ''sys''" and "importable env ''os''"
  shows "\<exists>ns'. exec_stmts env conf ns = Inr ns' \<and> exec_stmts env conf ns' = Inr ns'"
proof -
  from assms obtain a b where
    ab: "map_of (sys_modules env) ''sys'' = Some a" "map_of (sys_modules env) ''os'' = Some b"
    by (auto simp: importable_def)
  let ?kvs = "(''sys'', VModule ''sys'' a) # (''os'', VModule ''os'' b) # conf_bindings"
  have "distinct (map fst ?kvs)" by (simp add: conf_bindings_def)
  from bind_all_idem [OF this] show ?thesis
    by (simp add: exec_conf [OF ab])
qed

theorem reload_idempotent_witness:
  "importable posix_env ''sys'' \<and> importable posix_env ''os'' \<and>
   (\<exists>ns'. load posix_env = Inr ns' \<and> exec_stmts posix_env conf ns' = Inr ns')"
  using reload_idempotent [of posix_env "[]"] importable_posix_env by (simp add: load_def)

section \<open>The statements of the file\<close>

text \<open>
  C4, as stated: every statement of the file assigns a literal to a recognised option
  name. The file's first statement is \<^verbatim>\<open>import sys\<close>, which is no assignment.
\<close>

theorem not_every_statement_assigns:
  "hd conf = Import ''sys'' \<and> \<not> option_assignment (hd conf) \<and>
   \<not> list_all option_assignment conf"
  by (simp add: conf_def)

text \<open>
  C4, amended. The file begins with the two statements \<^verbatim>\<open>import sys\<close> and
  \<^verbatim>\<open>import os\<close>; every statement after them assigns a literal (a string, a
  boolean, or a list or mapping display of literals) to a recognised option name, and
  the two imports are the only statements that do not.
\<close>

theorem statements_are_imports_then_assignments:
  "take 2 conf = [Import ''sys'', Import ''os''] \<and>
   list_all option_assignment (drop 2 conf) \<and>
   filter (\<lambda>s. \<not> option_assignment s) conf = [Import ''sys'', Import ''os'']"
  by (simp add: conf_def recognized_options_def)

section \<open>Path-valued options\<close>

text \<open>
  C5. Each of \<open>templates_path\<close>, \<open>html_static_path\<close>, \<open>html_theme_path\<close> and
  \<open>exclude_patterns\<close> is a list of strings, each a relative path (it does not start
  with a slash) that resolves, from any directory \<open>d\<close> holding the configuration file,
  to a location below \<open>d\<close>.
\<close>

theorem path_options_relative:
  assumes "importable env ''sys''" and "importable env ''os''"
  shows "list_all (\<lambda>n. relative_paths d (lookup_option env n)) path_options"
  by (simp add: lookup_option_conf [OF assms] conf_bindings_def path_options_def
      isabs_def join_def)

theorem path_options_relative_witness:
  "importable posix_env ''sys'' \<and> importable posix_env ''os'' \<and>
   list_all (\<lambda>n. relative_paths ''/srv/docs'' (lookup_option posix_env n)) path_options \<and>
   join ''/srv/docs'' ''_templates'' = ''/srv/docs/_templates''"
  using path_options_relative [of posix_env "''/srv/docs''"] importable_posix_env
  by (simp add: join_def isabs_def)

section \<open>Display flags and the sidebar\<close>

text \<open>
  C6, as stated: source links, generator credit and sidebar are three boolean-valued
  options of the record. The boolean-valued options of the record are
  \<open>html_show_sourcelink\<close>, \<open>html_show_sphinx\<close> and \<open>todo_include_todos\<close>; none of
  them is about the sidebar, and \<open>html_theme_options\<close>, where the sidebar is set, is
  not boolean-valued.
\<close>

theorem sidebar_is_no_boolean_option:
  "bool_options posix_env = [''html_show_sourcelink'', ''html_show_sphinx'', ''todo_include_todos''] \<and>
   \<not> list_ex (sublist ''sidebar'') (bool_options posix_env) \<and>
   \<not> is_bool_option posix_env ''html_theme_options''"
proof -
  have sys: "map_of (sys_modules posix_env) ''sys'' = Some posix_sys"
    and os: "map_of (sys_modules posix_env) ''os'' = Some posix_os"
    by (simp_all add: posix_env_def)
  have b: "bool_options posix_env
             = [''html_show_sourcelink'', ''html_show_sphinx'', ''todo_include_todos'']"
    by (simp add: bool_options_def load_conf [OF sys os] config_record_def conf_bindings_def)
  have "\<not> list_ex (sublist ''sidebar'')
            [''html_show_sourcelink'', ''html_show_sphinx'', ''todo_include_todos'']"
    by (simp add: sublist_Cons_right)
  moreover have "\<not> is_bool_option posix_env ''html_theme_options''"
    using importable_posix_env
    by (simp add: is_bool_option_def lookup_option_conf conf_bindings_def)
  ultimately show ?thesis using b by simp
qed

text \<open>
  C6, amended. The record has two boolean display flags, \<open>html_show_sourcelink\<close> and
  \<open>html_show_sphinx\<close>, both \<^verbatim>\<open>True\<close>. The sidebar is not a boolean-valued option:
  it is the entry \<^verbatim>\<open>'nosidebar'\<close>, a boolean, of the mapping-valued option
  \<open>html_theme_options\<close>.
\<close>

theorem display_flags:
  assumes "importable env ''sys''" and "importable env ''os''"
  shows "lookup_option env ''html_show_sourcelink'' = Some (VBool True) \<and>
         lookup_option env ''html_show_sphinx'' = Some (VBool True) \<and>
         is_bool_option env ''html_show_sourcelink'' \<and>
         is_bool_option env ''html_show_sphinx'' \<and>
         \<not> is_bool_option env ''html_theme_options'' \<and>
         theme_option env ''nosidebar'' = Some (VBool False)"
  by (simp add: is_bool_option_def theme_option_def lookup_option_conf [OF assms]
      conf_bindings_def)

theorem display_flags_witness:
  "importable posix_env ''sys'' \<and> importable posix_env ''os'' \<and>
   lookup_option posix_env ''html_show_sourcelink'' = Some (VBool True) \<and>
   lookup_option posix_env ''html_show_sphinx'' = Some (VBool True) \<and>
   theme_option posix_env ''nosidebar'' = Some (VBool False)"
  using display_flags [of posix_env] importable_posix_env by simp

text \<open>
  C9. \<open>html_theme_options\<close> has exactly one key, \<^verbatim>\<open>'nosidebar'\<close>, bound to
  \<^verbatim>\<open>False\<close> (the sidebar is not switched off), and no name of the record mentions
  the sidebar: there is no top-level option for it.
\<close>

theorem sidebar_through_theme_options:
  assumes "importable env ''sys''" and "importable env ''os''"
  shows "lookup_option env ''html_theme_options''
           = Some (VDict [(VStr ''nosidebar'', VBool False)]) \<and>
         theme_option env ''nosidebar'' = Some (VBool False) \<and>
         (\<exists>ns. load env = Inr ns \<and>
               \<not> list_ex (sublist ''sidebar'') (map fst (config_record ns)))"
proof -
  from config_record_load [OF assms] obtain ns where
    ns: "load env = Inr ns" "config_record ns = conf_bindings" by blast
  have "\<not> list_ex (sublist ''sidebar'') (map fst conf_bindings)"
    by (simp add: conf_bindings_def sublist_Cons_right)
  with ns have "\<exists>ns. load env = Inr ns \<and>
      \<not> list_ex (sublist ''sidebar'') (map fst (config_record ns))"
    by simp
  then show ?thesis
    by (simp add: theme_option_def lookup_option_conf [OF assms] conf_bindings_def)
qed

theorem sidebar_through_theme_options_witness:
  "importable posix_env ''sys'' \<and> importable posix_env ''os'' \<and>
   lookup_option posix_env ''html_theme_options''
     = Some (VDict [(VStr ''nosidebar'', VBool False)]) \<and>
   lookup_option posix_env ''show_sidebar'' = None \<and>
   (\<exists>ns. load posix_env = Inr ns \<and>
         \<not> list_ex (sublist ''sidebar'') (map fst (config_record ns)))"
  using sidebar_through_theme_options [of posix_env] importable_posix_env
  by (simp add: lookup_option_conf conf_bindings_def)

section \<open>The exclude patterns\<close>

text \<open>
  C10. \<open>exclude_patterns\<close> is the list \<^verbatim>\<open>'_build'\<close>, \<^verbatim>\<open>'Thumbs.db'\<close>,
  \<^verbatim>\<open>'.DS_Store'\<close>, in that order, and none of the three contains a glob wildcard
  character: they are literal names.
\<close>

theorem exclude_patterns_literal_names:
  assumes "importable env ''sys''" and "importable env ''os''"
  shows "lookup_option env ''exclude_patterns''
           = Some (VList [VStr ''_build'', VStr ''Thumbs.db'', VStr ''.DS_Store'']) \<and>
         literal_names (lookup_option env ''exclude_patterns'')"
  by (simp add: lookup_option_conf [OF assms] conf_bindings_def has_magic_def)

theorem exclude_patterns_literal_names_witness:
  "importable posix_env ''sys'' \<and> importable posix_env ''os'' \<and>
   lookup_option posix_env ''exclude_patterns''
     = Some (VList [VStr ''_build'', VStr ''Thumbs.db'', VStr ''.DS_Store'']) \<and>
   literal_names (lookup_option posix_env ''exclude_patterns'')"
  using exclude_patterns_literal_names [of posix_env] importable_posix_env by blast

section \<open>Names are bound once\<close>

lemma exec_stmts_append:
  "exec_stmts env (ss @ ts) ns =
     (case exec_stmts env ss ns of Inl err \<Rightarrow> Inl err | Inr ns' \<Rightarrow> exec_stmts env ts ns')"
  by (induction ss arbitrary: ns) (auto split: sum.splits)

text \<open>A statement changes the binding of its target only.\<close>

lemma exec_frame:
  "exec env s ns = Inr ns' \<Longrightarrow> x \<noteq> target s \<Longrightarrow> map_of ns' x = map_of ns x"
  by (cases s) (auto simp: update_conv' split: option.splits sum.splits)

lemma exec_stmts_frame:
  "exec_stmts env ss ns = Inr ns' \<Longrightarrow> x \<notin> set (map target ss) \<Longrightarrow> map_of ns' x = map_of ns x"
proof (induction ss arbitrary: ns)
  case Nil
  then show ?case by simp
next
  case (Cons s ss)
  from Cons.prems(1) obtain ns1 where
    s: "exec env s ns = Inr ns1" and ss: "exec_stmts env ss ns1 = Inr ns'"
    by (auto split: sum.splits)
  from Cons.prems(2) have "x \<noteq> target s" and "x \<notin> set (map target ss)" by auto
  with exec_frame [OF s] Cons.IH [OF ss] show ?case by simp
qed

lemma distinct_targets: "distinct (map target conf)"
  by (simp add: conf_def)

lemma bound_once:
  "list_all (\<lambda>kv. length (filter (\<lambda>s. target s = fst kv) conf) = 1) conf_bindings"
  by (simp add: conf_def conf_bindings_def)

text \<open>
  C7. No two statements of the file bind the same name, so every option of the record
  is bound by exactly one statement; and a binding, once made, stays: whatever value a
  name has after the first \<open>k\<close> statements, it has when the file has been loaded.
\<close>

theorem bindings_are_final:
  assumes "importable env ''sys''" and "importable env ''os''"
    and pre: "exec_stmts env (take k conf) [] = Inr ns_k"
    and x: "map_of ns_k x = Some v"
  shows "distinct (map target conf) \<and>
         (\<exists>ns. load env = Inr ns \<and> map_of ns x = Some v \<and>
               list_all (\<lambda>kv. length (filter (\<lambda>s. target s = fst kv) conf) = 1)
                 (config_record ns))"
proof -
  from config_record_load [OF assms(1,2)] obtain ns where
    ns: "load env = Inr ns" and rec: "config_record ns = conf_bindings" by blast
  have "exec_stmts env (take k conf @ drop k conf) [] = Inr ns"
    using ns by (simp add: load_def)
  with pre exec_stmts_append [of env "take k conf" "drop k conf" "[]"]
  have post: "exec_stmts env (drop k conf) ns_k = Inr ns"
    by (simp del: append_take_drop_id)
  have "x \<in> set (map target (take k conf))"
  proof (rule ccontr)
    assume "x \<notin> set (map target (take k conf))"
    from exec_stmts_frame [OF pre this] x show False by simp
  qed
  moreover have "distinct (map target (take k conf @ drop k conf))"
    using distinct_targets by simp
  ultimately have "x \<notin> set (map target (drop k conf))"
    by (auto simp del: append_take_drop_id)
  from exec_stmts_frame [OF post this] x have "map_of ns x = Some v" by simp
  with ns rec bound_once distinct_targets show ?thesis by auto
qed

theorem bindings_are_final_witness:
  "importable posix_env ''sys'' \<and> importable posix_env ''os'' \<and>
   exec_stmts posix_env (take 3 conf) []
     = Inr [(''sys'', VModule ''sys'' posix_sys), (''os'', VModule ''os'' posix_os),
            (''project'', VStr ''C++ Contracts Documentation'')] \<and>
   distinct (map target conf) \<and>
   (\<exists>ns. load posix_env = Inr ns \<and>
         map_of ns ''project'' = Some (VStr ''C++ Contracts Documentation'') \<and>
         list_all (\<lambda>kv. length (filter (\<lambda>s. target s = fst kv) conf) = 1)
           (config_record ns))"
proof -
  have pre: "exec_stmts posix_env (take 3 conf) []
     = Inr [(''sys'', VModule ''sys'' posix_sys), (''os'', VModule ''os'' posix_os),
            (''project'', VStr ''C++ Contracts Documentation'')]"
    by (simp add: conf_def posix_env_def)
  have imp: "importable posix_env ''sys''" "importable posix_env ''os''"
    using importable_posix_env by simp_all
  from bindings_are_final [OF imp pre, of "''project''" "VStr ''C++ Contracts Documentation''"]
    pre imp
  show ?thesis by simp
qed

section \<open>The record does not depend on the environment\<close>

text \<open>
  C8. No statement of the file computes a value: every assigned expression is a
  literal, which reads no name, so neither of the imported modules. Loading in any two
  environments that have the modules \<open>sys\<close> and \<open>os\<close> yields the same record, the
  constant \<open>conf_bindings\<close>.
\<close>

theorem record_independent_of_environment:
  assumes "importable env1 ''sys''" and "importable env1 ''os''"
    and "importable env2 ''sys''" and "importable env2 ''os''"
  shows "list_all is_literal (concat (map assigned conf)) \<and>
         (\<exists>ns1 ns2. load env1 = Inr ns1 \<and> load env2 = Inr ns2 \<and>
                    config_record ns1 = config_record ns2 \<and>
                    config_record ns1 = conf_bindings)"
proof -
  have "list_all is_literal (concat (map assigned conf))"
    by (simp add: conf_def)
  moreover from config_record_load [OF assms(1,2)] obtain ns1 where
    "load env1 = Inr ns1" "config_record ns1 = conf_bindings" by blast
  moreover from config_record_load [OF assms(3,4)] obtain ns2 where
    "load env2 = Inr ns2" "config_record ns2 = conf_bindings" by blast
  ultimately show ?thesis by simp
qed

text \<open>The two environments of the witness do differ, and so do the namespaces.\<close>

lemma namespaces_differ: "load posix_env \<noteq> load ci_env"
proof -
  have "load posix_env
          = Inr ((''sys'', VModule ''sys'' posix_sys) # (''os'', VModule ''os'' posix_os) # conf_bindings)"
    by (rule load_conf) (simp_all add: posix_env_def)
  moreover obtain a b where "load ci_env
          = Inr ((''sys'', VModule ''sys'' a) # (''os'', VModule ''os'' b) # conf_bindings)"
    and "a = [(''argv'', VList [VStr ''python'', VStr ''-m'', VStr ''sphinx'', VStr ''-b'', VStr ''html''])]"
    using load_conf [of ci_env] by (simp add: ci_env_def)
  ultimately show ?thesis by (simp add: posix_sys_def)
qed

theorem record_independent_of_environment_witness:
  "importable posix_env ''sys'' \<and> importable posix_env ''os'' \<and>
   importable ci_env ''sys'' \<and> importable ci_env ''os'' \<and>
   load posix_env \<noteq> load ci_env \<and>
   (\<exists>ns1 ns2. load posix_env = Inr ns1 \<and> load ci_env = Inr ns2 \<and>
              config_record ns1 = config_record ns2)"
  using record_independent_of_environment [of posix_env ci_env]
    importable_posix_env importable_ci_env namespaces_differ
  by blast

end
